theory Spec2Isabelle
  imports Main "HOL-Library.Word"
begin

section \<open>JavaScript values\<close>

text \<open>
  A JavaScript string is a sequence of UTF-16 code units. Identifiers, message contents and
  emoji are all such strings; the code compares them with \<open>===\<close>, which on strings is
  equality of the code-unit sequences.
\<close>

type_synonym jsstring = "16 word list"

definition js :: "string \<Rightarrow> jsstring" where
  "js s = map (\<lambda>c. of_nat (of_char c)) s"

text \<open>
  \<open>String.prototype.trim\<close> removes the leading and trailing code units that are WhiteSpace
  or LineTerminator in ECMAScript: TAB, LF, VT, FF, CR, SP, NBSP, U+1680, U+2000 to U+200A,
  U+2028, U+2029, U+202F, U+205F, U+3000 and U+FEFF.
\<close>

definition is_ws :: "16 word \<Rightarrow> bool" where
  "is_ws c = (c \<in> set [0x9, 0xA, 0xB, 0xC, 0xD, 0x20, 0xA0, 0x1680,
      0x2000, 0x2001, 0x2002, 0x2003, 0x2004, 0x2005, 0x2006, 0x2007, 0x2008, 0x2009, 0x200A,
      0x2028, 0x2029, 0x202F, 0x205F, 0x3000, 0xFEFF])"

definition trim :: "jsstring \<Rightarrow> jsstring" where
  "trim s = rev (dropWhile is_ws (rev (dropWhile is_ws s)))"

text \<open>
  The \<open>reactions\<close> column is JSONB and reaches the client as a parsed JSON value. JSON
  numbers are modelled as integers: the code only tests them for truthiness.
\<close>

datatype json =
    JNull
  | JBool bool
  | JNum int
  | JStr jsstring
  | JArr "json list"
  | JObj "(jsstring \<times> json) list"

datatype js_error = TypeError

text \<open>Truthiness of a value, as \<open>||\<close> and \<open>if\<close> test it.\<close>

fun truthy :: "json \<Rightarrow> bool" where
  "truthy JNull = False"
| "truthy (JBool b) = b"
| "truthy (JNum n) = (n \<noteq> 0)"
| "truthy (JStr s) = (s \<noteq> [])"
| "truthy (JArr xs) = True"
| "truthy (JObj kvs) = True"

text \<open>
  Property access \<open>r.k\<close> for the keys the code reads (\<open>emoji\<close>, \<open>user_id\<close>,
  \<open>count\<close>, none of which a built-in prototype defines): on \<open>null\<close> it throws a
  TypeError, on an object it is the member or \<open>undefined\<close> (\<open>None\<close>), on any other
  value it is \<open>undefined\<close>.
\<close>

fun get_prop :: "json \<Rightarrow> jsstring \<Rightarrow> js_error + json option" where
  "get_prop JNull k = Inl TypeError"
| "get_prop (JObj kvs) k = Inr (map_of kvs k)"
| "get_prop v k = Inr None"

text \<open>\<open>v || d\<close> for a possibly undefined \<open>v\<close>.\<close>

fun or_default :: "json option \<Rightarrow> json \<Rightarrow> json" where
  "or_default None d = d"
| "or_default (Some v) d = (if truthy v then v else d)"

section \<open>Data model\<close>

text \<open>
  A row of \<open>public.messages\<close> with the columns of the two migrations. The client's
  \<open>Message\<close> objects are such rows: \<open>fetchMessages\<close> spreads the row (\<open>...msg\<close>) and the
  realtime handlers use \<open>payload.new\<close> as it is. Timestamps are instants counted in
  milliseconds; the field \<open>id\<close> is named \<open>msg_id\<close>.
\<close>

record message =
  msg_id :: jsstring
  conversation_id :: jsstring
  sender_id :: jsstring
  content :: jsstring
  message_type :: jsstring
  translation :: "jsstring option"
  created_at :: nat
  is_read :: bool
  edited_at :: "nat option"
  parent_message_id :: "jsstring option"
  is_pinned :: bool
  reactions :: json
  is_deleted :: bool
  deleted_at :: "nat option"

record conversation =
  conv_id :: jsstring
  participant1_id :: jsstring
  participant2_id :: jsstring
  last_message_at :: nat

record typing_indicator =
  typing_conversation_id :: jsstring
  typing_user_id :: jsstring
  started_at :: nat

text \<open>
  The state of the \<open>Chat\<close> component that the handlers below read and write: the
  \<open>useState\<close> cells of the message engine, the deadline of the timer held in
  \<open>typingTimeoutRef\<close> (\<open>None\<close> when no timer is pending) and the toasts shown so far.
\<close>

record chat =
  messages :: "message list"
  newMessage :: jsstring
  isSending :: bool
  editingMessageId :: "jsstring option"
  replyingTo :: "message option"
  typingTimeout :: "nat option"
  toasts :: "string list"

section \<open>The backend\<close>

text \<open>
  The hosted database is outside the repository. It is modelled by its tables and by the
  meaning of the statements the client builds: \<open>eq\<close>/\<open>neq\<close> filters select rows,
  \<open>order\<close> sorts them, \<open>update\<close> changes the named columns of the selected rows,
  \<open>insert\<close> adds a row whose other columns take the defaults of the migrations. Every
  statement the client sends is also recorded in \<open>requests\<close>.
\<close>

datatype request =
    SelectPreferences jsstring
  | SelectMessages jsstring
  | MarkRead jsstring jsstring
  | InsertMessage jsstring jsstring jsstring jsstring "jsstring option"
  | UpdateContent jsstring jsstring nat
  | SoftDelete jsstring nat
  | SetPinned jsstring bool
  | SetReactions jsstring json
  | UpsertTyping jsstring jsstring nat
  | DeleteTyping jsstring jsstring
  | FindConversation jsstring jsstring
  | InsertConversation jsstring jsstring

record backend =
  messages_tbl :: "message list"
  conversations_tbl :: "conversation list"
  typing_tbl :: "typing_indicator list"
  requests :: "request list"

text \<open>
  How an awaited statement ends. \<open>Applied u t\<close>: the statement reached the database,
  which executed it; \<open>u\<close> and \<open>t\<close> are what \<open>gen_random_uuid()\<close> and \<open>now()\<close>
  returned there (used by inserts only). \<open>Rejected\<close>: the statement was refused before it
  ran (transport, authorization), the answer carries an error and nothing was changed.
  \<open>Threw\<close>: the awaited promise was rejected, so control passes to \<open>catch\<close>.
\<close>

datatype outcome = Applied jsstring nat | Rejected | Threw

fun is_applied :: "outcome \<Rightarrow> bool" where
  "is_applied (Applied u t) = True"
| "is_applied oc = False"

definition update_where :: "('a \<Rightarrow> bool) \<Rightarrow> ('a \<Rightarrow> 'a) \<Rightarrow> 'a list \<Rightarrow> 'a list" where
  "update_where p f rows = map (\<lambda>r. if p r then f r else r) rows"

text \<open>
  \<open>.eq("conversation_id", c).eq("is_deleted", false).order("created_at", {ascending: true})\<close>
\<close>

definition select_messages :: "jsstring \<Rightarrow> message list \<Rightarrow> message list" where
  "select_messages c rows =
     sort_key created_at (filter (\<lambda>r. conversation_id r = c \<and> is_deleted r = False) rows)"

text \<open>The row an insert into \<open>messages\<close> creates, with the column defaults.\<close>

definition new_message_row ::
  "jsstring \<Rightarrow> nat \<Rightarrow> jsstring \<Rightarrow> jsstring \<Rightarrow> jsstring \<Rightarrow> jsstring \<Rightarrow> jsstring option \<Rightarrow> message" where
  "new_message_row u t c s txt ty parent =
     \<lparr>msg_id = u, conversation_id = c, sender_id = s, content = txt, message_type = ty,
      translation = None, created_at = t, is_read = False, edited_at = None,
      parent_message_id = parent, is_pinned = False, reactions = JArr [],
      is_deleted = False, deleted_at = None\<rparr>"

text \<open>
  The table effect of a statement the database executes. Selects change nothing. The insert
  of a message fires the trigger \<open>update_conversation_on_message\<close>.

  \<open>upsert\<close> is called on \<open>typing_indicators\<close> without \<open>onConflict\<close>, so conflicts are
  resolved on the primary key \<open>id\<close> only. The payload carries no \<open>id\<close>, the generated
  one never collides, and a row with the same \<open>(conversation_id, user_id)\<close> violates the
  table's \<open>UNIQUE\<close> constraint: the statement fails and the table stays as it is (the
  migration also defines no UPDATE policy for this table). The answer is not read by the
  caller.
\<close>

fun apply_request :: "jsstring \<Rightarrow> nat \<Rightarrow> request \<Rightarrow> backend \<Rightarrow> backend" where
  "apply_request u t (SelectPreferences usr) b = b"
| "apply_request u t (SelectMessages c) b = b"
| "apply_request u t (MarkRead c usr) b =
     b\<lparr>messages_tbl := update_where
          (\<lambda>r. conversation_id r = c \<and> sender_id r \<noteq> usr \<and> is_read r = False)
          (\<lambda>r. r\<lparr>is_read := True\<rparr>) (messages_tbl b)\<rparr>"
| "apply_request u t (InsertMessage c s txt ty parent) b =
     b\<lparr>messages_tbl := messages_tbl b @ [new_message_row u t c s txt ty parent],
       conversations_tbl := update_where (\<lambda>cv. conv_id cv = c)
          (\<lambda>cv. cv\<lparr>last_message_at := t\<rparr>) (conversations_tbl b)\<rparr>"
| "apply_request u t (UpdateContent i txt e) b =
     b\<lparr>messages_tbl := update_where (\<lambda>r. msg_id r = i)
          (\<lambda>r. r\<lparr>content := txt, edited_at := Some e\<rparr>) (messages_tbl b)\<rparr>"
| "apply_request u t (SoftDelete i d) b =
     b\<lparr>messages_tbl := update_where (\<lambda>r. msg_id r = i)
          (\<lambda>r. r\<lparr>is_deleted := True, deleted_at := Some d\<rparr>) (messages_tbl b)\<rparr>"
| "apply_request u t (SetPinned i p) b =
     b\<lparr>messages_tbl := update_where (\<lambda>r. msg_id r = i)
          (\<lambda>r. r\<lparr>is_pinned := p\<rparr>) (messages_tbl b)\<rparr>"
| "apply_request u t (SetReactions i rs) b =
     b\<lparr>messages_tbl := update_where (\<lambda>r. msg_id r = i)
          (\<lambda>r. r\<lparr>reactions := rs\<rparr>) (messages_tbl b)\<rparr>"
| "apply_request u t (UpsertTyping c usr s) b =
     (if \<exists>r \<in> set (typing_tbl b). typing_conversation_id r = c \<and> typing_user_id r = usr
      then b
      else b\<lparr>typing_tbl := typing_tbl b
          @ [\<lparr>typing_conversation_id = c, typing_user_id = usr, started_at = s\<rparr>]\<rparr>)"
| "apply_request u t (DeleteTyping c usr) b =
     b\<lparr>typing_tbl :=
          filter (\<lambda>r. \<not> (typing_conversation_id r = c \<and> typing_user_id r = usr)) (typing_tbl b)\<rparr>"
| "apply_request u t (FindConversation a a') b = b"
| "apply_request u t (InsertConversation a a') b =
     b\<lparr>conversations_tbl := conversations_tbl b
          @ [\<lparr>conv_id = u, participant1_id = a, participant2_id = a', last_message_at = t\<rparr>]\<rparr>"

text \<open>Sending a statement: it is recorded, and executed when the outcome says so.\<close>

fun call :: "request \<Rightarrow> outcome \<Rightarrow> backend \<Rightarrow> backend" where
  "call r (Applied u t) b = apply_request u t r (b\<lparr>requests := requests b @ [r]\<rparr>)"
| "call r oc b = b\<lparr>requests := requests b @ [r]\<rparr>"

section \<open>Realtime merge (subscribeToMessages)\<close>

datatype change = INSERT message | UPDATE message

text \<open>
  The two \<open>postgres_changes\<close> callbacks. The channel filter
  \<open>conversation_id=eq.${conversationId}\<close> is applied first.
\<close>

fun on_change :: "change \<Rightarrow> message list \<Rightarrow> message list" where
  "on_change (INSERT newMsg) current =
     (if \<not> is_deleted newMsg then current @ [newMsg] else current)"
| "on_change (UPDATE updated) current =
     map (\<lambda>msg. if msg_id msg = msg_id updated then updated else msg) current"

fun payload_new :: "change \<Rightarrow> message" where
  "payload_new (INSERT m) = m"
| "payload_new (UPDATE m) = m"

definition subscribeToMessages :: "jsstring \<Rightarrow> change \<Rightarrow> chat \<Rightarrow> chat" where
  "subscribeToMessages cid ev c =
     (if conversation_id (payload_new ev) = cid
      then c\<lparr>messages := on_change ev (messages c)\<rparr> else c)"

section \<open>Initial load and read receipts\<close>

text \<open>\<open>Array.prototype.map\<close> with a callback that may throw.\<close>

fun map_js :: "('a \<Rightarrow> js_error + 'b) \<Rightarrow> 'a list \<Rightarrow> js_error + 'b list" where
  "map_js f [] = Inr []"
| "map_js f (x # xs) =
     (case f x of
        Inl e \<Rightarrow> Inl e
      | Inr y \<Rightarrow> (case map_js f xs of Inl e \<Rightarrow> Inl e | Inr ys \<Rightarrow> Inr (y # ys)))"

text \<open>
  The callback of \<open>msg.reactions.map\<close>:
  \<open>{emoji: r.emoji || "", user_id: r.user_id || "", count: r.count || 1}\<close>.
\<close>

definition normalize_reaction :: "json \<Rightarrow> js_error + json" where
  "normalize_reaction r =
     (case get_prop r (js ''emoji'') of
        Inl e \<Rightarrow> Inl e
      | Inr em \<Rightarrow>
     (case get_prop r (js ''user_id'') of
        Inl e \<Rightarrow> Inl e
      | Inr us \<Rightarrow>
     (case get_prop r (js ''count'') of
        Inl e \<Rightarrow> Inl e
      | Inr cn \<Rightarrow>
          Inr (JObj [(js ''emoji'', or_default em (JStr [])),
                     (js ''user_id'', or_default us (JStr [])),
                     (js ''count'', or_default cn (JNum 1))]))))"

text \<open>\<open>Array.isArray(msg.reactions) ? msg.reactions.map(...) : []\<close>\<close>

fun normalize_reactions :: "json \<Rightarrow> js_error + json" where
  "normalize_reactions (JArr rs) =
     (case map_js normalize_reaction rs of Inl e \<Rightarrow> Inl e | Inr rs' \<Rightarrow> Inr (JArr rs'))"
| "normalize_reactions v = Inr (JArr [])"

definition normalize_message :: "message \<Rightarrow> js_error + message" where
  "normalize_message msg =
     (case normalize_reactions (reactions msg) of
        Inl e \<Rightarrow> Inl e
      | Inr rs \<Rightarrow> Inr (msg\<lparr>reactions := rs\<rparr>))"

text \<open>
  \<open>fetchMessages\<close>: an error answer or an exception inside \<open>try\<close> ends in \<open>catch\<close>, which
  shows a toast and leaves \<open>messages\<close> alone; otherwise \<open>setMessages\<close> stores the mapped
  rows.
\<close>

definition fetchMessages :: "jsstring \<Rightarrow> outcome \<Rightarrow> chat \<times> backend \<Rightarrow> chat \<times> backend" where
  "fetchMessages cid oc w =
     (let c = fst w; b = snd w; b1 = call (SelectMessages cid) oc b in
      if is_applied oc then
        (case map_js normalize_message (select_messages cid (messages_tbl b)) of
           Inr ms \<Rightarrow> (c\<lparr>messages := ms\<rparr>, b1)
         | Inl e \<Rightarrow> (c\<lparr>toasts := toasts c @ [''Failed to load messages'']\<rparr>, b1))
      else (c\<lparr>toasts := toasts c @ [''Failed to load messages'']\<rparr>, b1))"

definition markMessagesAsRead ::
  "jsstring \<Rightarrow> jsstring \<Rightarrow> outcome \<Rightarrow> chat \<times> backend \<Rightarrow> chat \<times> backend" where
  "markMessagesAsRead cid uid oc w = (fst w, call (MarkRead cid uid) oc (snd w))"

text \<open>
  \<open>fetchUserPreferences\<close> reads the user's mode, which only selects the input button and
  the placeholder; of it, the statement is kept.
\<close>

definition fetchUserPreferences :: "jsstring \<Rightarrow> outcome \<Rightarrow> chat \<times> backend \<Rightarrow> chat \<times> backend" where
  "fetchUserPreferences uid oc w = (fst w, call (SelectPreferences uid) oc (snd w))"

text \<open>
  The mount effect, for a signed-in user and a conversation: the preferences, the load and
  the bulk update are started in this order.
\<close>

definition enter_conversation ::
  "jsstring \<Rightarrow> jsstring \<Rightarrow> outcome \<Rightarrow> outcome \<Rightarrow> outcome \<Rightarrow> chat \<times> backend
     \<Rightarrow> chat \<times> backend" where
  "enter_conversation cid uid o0 o1 o2 w =
     markMessagesAsRead cid uid o2 (fetchMessages cid o1 (fetchUserPreferences uid o0 w))"

section \<open>Typing indicator\<close>

text \<open>
  \<open>handleTyping\<close> at client time \<open>now\<close> (milliseconds): \<open>clearTimeout\<close> drops the pending
  timer, the upsert is sent, and \<open>setTimeout(..., 3000)\<close> arms a timer for \<open>now + 3000\<close>.
\<close>

definition handleTyping ::
  "jsstring \<Rightarrow> jsstring \<Rightarrow> nat \<Rightarrow> outcome \<Rightarrow> chat \<times> backend \<Rightarrow> chat \<times> backend" where
  "handleTyping cid uid now oc w =
     ((fst w)\<lparr>typingTimeout := Some (now + 3000)\<rparr>, call (UpsertTyping cid uid now) oc (snd w))"

text \<open>The event loop at time \<open>now\<close>: a timer whose deadline has passed runs its callback.\<close>

definition run_timers ::
  "jsstring \<Rightarrow> jsstring \<Rightarrow> nat \<Rightarrow> outcome \<Rightarrow> chat \<times> backend \<Rightarrow> chat \<times> backend" where
  "run_timers cid uid now oc w =
     (case typingTimeout (fst w) of
        None \<Rightarrow> w
      | Some deadline \<Rightarrow>
          if deadline \<le> now
          then ((fst w)\<lparr>typingTimeout := None\<rparr>, call (DeleteTyping cid uid) oc (snd w))
          else w)"

section \<open>Send, edit, delete, pin, react, reply\<close>

text \<open>
  The tail of \<open>handleSendMessage\<close> after a successful mutation: the draft and the reply
  target are cleared and the typing row is deleted; an exception there reaches \<open>catch\<close>.
  \<open>finally\<close> resets \<open>isSending\<close> on every path.
\<close>

definition send_tail ::
  "jsstring \<Rightarrow> jsstring \<Rightarrow> outcome \<Rightarrow> chat \<Rightarrow> backend \<Rightarrow> chat \<times> backend" where
  "send_tail cid uid o2 c b =
     (let c1 = c\<lparr>newMessage := [], replyingTo := None\<rparr>;
          b1 = call (DeleteTyping cid uid) o2 b in
      if o2 = Threw
      then (c1\<lparr>toasts := toasts c1 @ [''Failed to send message''], isSending := False\<rparr>, b1)
      else (c1\<lparr>isSending := False\<rparr>, b1))"

definition send_failed :: "chat \<Rightarrow> chat" where
  "send_failed c = c\<lparr>toasts := toasts c @ [''Failed to send message''], isSending := False\<rparr>"

text \<open>\<open>replyingTo?.id || null\<close>\<close>

definition reply_parent :: "message option \<Rightarrow> jsstring option" where
  "reply_parent r =
     (case r of None \<Rightarrow> None | Some m \<Rightarrow> if msg_id m \<noteq> [] then Some (msg_id m) else None)"

text \<open>\<open>if (editingMessageId)\<close>: \<open>null\<close> and the empty string are falsy.\<close>

definition editing_target :: "chat \<Rightarrow> jsstring option" where
  "editing_target c =
     (case editingMessageId c of None \<Rightarrow> None | Some i \<Rightarrow> if i \<noteq> [] then Some i else None)"

definition handleSendMessage ::
  "jsstring \<Rightarrow> jsstring \<Rightarrow> nat \<Rightarrow> outcome \<Rightarrow> outcome \<Rightarrow> chat \<times> backend \<Rightarrow> chat \<times> backend" where
  "handleSendMessage cid uid now o1 o2 w =
     (let c = fst w; b = snd w in
      if trim (newMessage c) = [] \<or> isSending c then w
      else
        let c1 = c\<lparr>isSending := True\<rparr> in
        (case editing_target c of
           Some i \<Rightarrow>
             (let b1 = call (UpdateContent i (newMessage c) now) o1 b in
              if o1 = Threw then (send_failed c1, b1)
              else send_tail cid uid o2 (c1\<lparr>editingMessageId := None\<rparr>) b1)
         | None \<Rightarrow>
             (let b1 = call (InsertMessage cid uid (newMessage c) (js ''text'')
                               (reply_parent (replyingTo c))) o1 b in
              if is_applied o1 then send_tail cid uid o2 c1 b1
              else (send_failed c1, b1))))"

definition handleEditMessage :: "message \<Rightarrow> chat \<Rightarrow> chat" where
  "handleEditMessage message c =
     c\<lparr>newMessage := content message, editingMessageId := Some (msg_id message)\<rparr>"

definition handleReply :: "message \<Rightarrow> chat \<Rightarrow> chat" where
  "handleReply message c = c\<lparr>replyingTo := Some message\<rparr>"

text \<open>
  \<open>handleDeleteMessage\<close>: the answer of the update is not inspected; unless the await
  throws, the message is filtered out of \<open>messages\<close> at once.
\<close>

definition handleDeleteMessage ::
  "jsstring \<Rightarrow> nat \<Rightarrow> outcome \<Rightarrow> chat \<times> backend \<Rightarrow> chat \<times> backend" where
  "handleDeleteMessage messageId now oc w =
     (let c = fst w; b1 = call (SoftDelete messageId now) oc (snd w) in
      if oc = Threw
      then (c\<lparr>toasts := toasts c @ [''Failed to delete message'']\<rparr>, b1)
      else (c\<lparr>messages := filter (\<lambda>msg. msg_id msg \<noteq> messageId) (messages c),
              toasts := toasts c @ [''Message deleted'']\<rparr>, b1))"

definition handlePinMessage ::
  "jsstring \<Rightarrow> bool \<Rightarrow> outcome \<Rightarrow> chat \<times> backend \<Rightarrow> chat \<times> backend" where
  "handlePinMessage messageId currentPinned oc w =
     (let c = fst w; b1 = call (SetPinned messageId (\<not> currentPinned)) oc (snd w) in
      if oc = Threw
      then (c\<lparr>toasts := toasts c @ [''Failed to pin message'']\<rparr>, b1)
      else (c\<lparr>toasts := toasts c
                 @ [if currentPinned then ''Message unpinned'' else ''Message pinned'']\<rparr>, b1))"

text \<open>\<open>Array.prototype.find\<close> and \<open>filter\<close> with a predicate that may throw.\<close>

fun find_js :: "('a \<Rightarrow> js_error + bool) \<Rightarrow> 'a list \<Rightarrow> js_error + 'a option" where
  "find_js p [] = Inr None"
| "find_js p (x # xs) =
     (case p x of
        Inl e \<Rightarrow> Inl e
      | Inr t \<Rightarrow> if t then Inr (Some x) else find_js p xs)"

fun filter_js :: "('a \<Rightarrow> js_error + bool) \<Rightarrow> 'a list \<Rightarrow> js_error + 'a list" where
  "filter_js p [] = Inr []"
| "filter_js p (x # xs) =
     (case p x of
        Inl e \<Rightarrow> Inl e
      | Inr t \<Rightarrow>
          (case filter_js p xs of
             Inl e \<Rightarrow> Inl e
           | Inr ys \<Rightarrow> Inr (if t then x # ys else ys)))"

text \<open>\<open>r.emoji === emoji && r.user_id === user?.id\<close>, for the signed-in user.\<close>

definition same_reaction :: "jsstring \<Rightarrow> jsstring \<Rightarrow> json \<Rightarrow> js_error + bool" where
  "same_reaction uid emoji r =
     (case get_prop r (js ''emoji'') of
        Inl e \<Rightarrow> Inl e
      | Inr em \<Rightarrow>
          if em \<noteq> Some (JStr emoji) then Inr False
          else (case get_prop r (js ''user_id'') of
                  Inl e \<Rightarrow> Inl e
                | Inr us \<Rightarrow> Inr (us = Some (JStr uid))))"

definition other_reaction :: "jsstring \<Rightarrow> jsstring \<Rightarrow> json \<Rightarrow> js_error + bool" where
  "other_reaction uid emoji r =
     (case same_reaction uid emoji r of Inl e \<Rightarrow> Inl e | Inr t \<Rightarrow> Inr (\<not> t))"

definition new_reaction :: "jsstring \<Rightarrow> jsstring \<Rightarrow> json" where
  "new_reaction uid emoji =
     JObj [(js ''emoji'', JStr emoji), (js ''user_id'', JStr uid), (js ''count'', JNum 1)]"

text \<open>\<open>message.reactions || []\<close>\<close>

definition reaction_collection :: "json \<Rightarrow> json" where
  "reaction_collection v = (if truthy v then v else JArr [])"

text \<open>
  The computation of \<open>newReactions\<close>. On a value that is not an array \<open>.find\<close> is not a
  function and the call throws.
\<close>

definition toggle_reaction :: "jsstring \<Rightarrow> jsstring \<Rightarrow> json \<Rightarrow> js_error + json" where
  "toggle_reaction uid emoji v =
     (case reaction_collection v of
        JArr rs \<Rightarrow>
          (case find_js (same_reaction uid emoji) rs of
             Inl e \<Rightarrow> Inl e
           | Inr None \<Rightarrow> Inr (JArr (rs @ [new_reaction uid emoji]))
           | Inr (Some existingReaction) \<Rightarrow>
               if truthy existingReaction
               then (case filter_js (other_reaction uid emoji) rs of
                       Inl e \<Rightarrow> Inl e
                     | Inr rs' \<Rightarrow> Inr (JArr rs'))
               else Inr (JArr (rs @ [new_reaction uid emoji])))
      | other \<Rightarrow> Inl TypeError)"

text \<open>
  \<open>handleReaction\<close>: nothing is written locally; an exception is logged to the console
  only.
\<close>

definition handleReaction ::
  "jsstring \<Rightarrow> jsstring \<Rightarrow> jsstring \<Rightarrow> outcome \<Rightarrow> chat \<times> backend \<Rightarrow> chat \<times> backend" where
  "handleReaction uid messageId emoji oc w =
     (case find (\<lambda>m. msg_id m = messageId) (messages (fst w)) of
        None \<Rightarrow> w
      | Some message \<Rightarrow>
          (case toggle_reaction uid emoji (reactions message) of
             Inl e \<Rightarrow> w
           | Inr newReactions \<Rightarrow> (fst w, call (SetReactions messageId newReactions) oc (snd w))))"

text \<open>
  The realtime echo of an update of row \<open>i\<close>: the database publishes the row as it now
  is, and the subscription of conversation \<open>cid\<close> merges it.
\<close>

definition echo_update :: "jsstring \<Rightarrow> jsstring \<Rightarrow> chat \<times> backend \<Rightarrow> chat \<times> backend" where
  "echo_update cid i w =
     (case find (\<lambda>r. msg_id r = i) (messages_tbl (snd w)) of
        None \<Rightarrow> w
      | Some row \<Rightarrow> (subscribeToMessages cid (UPDATE row) (fst w), snd w))"

section \<open>Rendering the message list\<close>

text \<open>
  \<open>message.reactions.length > 0\<close>, evaluated on a truthy value. An array and a string have
  their length; a number and a boolean have none, and \<open>undefined > 0\<close> is false; an
  object has its member \<open>length\<close>, which is compared as a number when it is a number or a
  boolean. A member of another kind would first be converted to a number; that conversion
  is not modelled and such a member counts as not positive.
\<close>

fun length_positive :: "json \<Rightarrow> bool" where
  "length_positive (JArr xs) = (xs \<noteq> [])"
| "length_positive (JStr s) = (s \<noteq> [])"
| "length_positive (JObj kvs) =
     (case map_of kvs (js ''length'') of
        Some (JNum n) \<Rightarrow> 0 < n
      | Some (JBool b) \<Rightarrow> b
      | other \<Rightarrow> False)"
| "length_positive v = False"

text \<open>
  The reaction badges of a bubble:
  \<open>message.reactions && message.reactions.length > 0 && Object.entries(message.reactions.reduce(...))\<close>.
  The callback of \<open>reduce\<close> reads \<open>r.emoji\<close> of every entry, so it throws on \<open>null\<close>;
  on a value that is not an array \<open>reduce\<close> is not a function. Of the badges, only whether
  drawing them throws is kept.
\<close>

definition reaction_badges :: "json \<Rightarrow> js_error + unit" where
  "reaction_badges v =
     (if truthy v \<and> length_positive v
      then (case v of
              JArr rs \<Rightarrow>
                (case map_js (\<lambda>r. get_prop r (js ''emoji'')) rs of
                   Inl e \<Rightarrow> Inl e
                 | Inr ems \<Rightarrow> Inr ())
            | other \<Rightarrow> Inl TypeError)
      else Inr ())"

text \<open>
  The message list of the page: \<open>messages.map(...)\<close> draws one bubble per element of
  \<open>messages\<close>, keyed by the identifier and showing the content; no element is filtered
  out. An exception while a bubble is drawn ends the rendering of the page.
\<close>

definition render_messages :: "chat \<Rightarrow> js_error + (jsstring \<times> jsstring) list" where
  "render_messages c =
     map_js (\<lambda>message.
        case reaction_badges (reactions message) of
          Inl e \<Rightarrow> Inl e
        | Inr u \<Rightarrow> Inr (msg_id message, content message)) (messages c)"

text \<open>The pinned strip: \<open>messages.filter((m) => m.is_pinned)\<close>.\<close>

definition render_pinned :: "chat \<Rightarrow> jsstring list" where
  "render_pinned c = map content (filter is_pinned (messages c))"

section \<open>Starting a conversation (handleStartChat)\<close>

text \<open>
  \<open>.or(and(participant1_id.eq.a, participant2_id.eq.a'), and(participant1_id.eq.a',
  participant2_id.eq.a))\<close>
\<close>

definition find_conversation :: "jsstring \<Rightarrow> jsstring \<Rightarrow> conversation list \<Rightarrow> conversation list" where
  "find_conversation a a' rows =
     filter (\<lambda>cv. (participant1_id cv = a \<and> participant2_id cv = a')
                 \<or> (participant1_id cv = a' \<and> participant2_id cv = a)) rows"

text \<open>
  \<open>.maybeSingle()\<close>: no row gives \<open>data: null\<close>, one row gives that row, and more than
  one row gives \<open>data: null\<close> with an error, which \<open>handleStartChat\<close> does not read.
\<close>

fun maybeSingle :: "'a list \<Rightarrow> 'a option" where
  "maybeSingle [] = None"
| "maybeSingle [x] = Some x"
| "maybeSingle (x # y # zs) = None"

record directory =
  navigated :: "jsstring option"
  dir_toasts :: "string list"

definition handleStartChat ::
  "jsstring option \<Rightarrow> jsstring \<Rightarrow> outcome \<Rightarrow> outcome \<Rightarrow> directory \<times> backend
     \<Rightarrow> directory \<times> backend" where
  "handleStartChat user otherUserId o1 o2 w =
     (case user of
        None \<Rightarrow> w
      | Some uid \<Rightarrow>
          (let d = fst w; b = snd w; b1 = call (FindConversation uid otherUserId) o1 b in
           if o1 = Threw
           then (d\<lparr>dir_toasts := dir_toasts d @ [''Failed to start conversation'']\<rparr>, b1)
           else
             (case (if is_applied o1
                    then maybeSingle (find_conversation uid otherUserId (conversations_tbl b))
                    else None) of
                Some existingConversation \<Rightarrow>
                  (d\<lparr>navigated := Some (conv_id existingConversation)\<rparr>, b1)
              | None \<Rightarrow>
                  (let b2 = call (InsertConversation uid otherUserId) o2 b1 in
                   case o2 of
                     Applied u t \<Rightarrow> (d\<lparr>navigated := Some u\<rparr>, b2)
                   | Rejected \<Rightarrow>
                       (d\<lparr>dir_toasts := dir_toasts d @ [''Failed to start conversation'']\<rparr>, b2)
                   | Threw \<Rightarrow>
                       (d\<lparr>dir_toasts := dir_toasts d @ [''Failed to start conversation'']\<rparr>, b2)))))"

section \<open>Sample data\<close>

text \<open>A conversation between alice and bob holding one message, used in the examples.\<close>

definition sample_message :: message where
  "sample_message =
     \<lparr>msg_id = js ''m1'', conversation_id = js ''c1'', sender_id = js ''alice'',
      content = js ''hello'', message_type = js ''text'', translation = None,
      created_at = 1000, is_read = False, edited_at = None, parent_message_id = None,
      is_pinned = False, reactions = JArr [], is_deleted = False, deleted_at = None\<rparr>"

definition sample_chat :: chat where
  "sample_chat =
     \<lparr>messages = [sample_message], newMessage = [], isSending = False,
      editingMessageId = None, replyingTo = None, typingTimeout = None, toasts = []\<rparr>"

definition sample_backend :: backend where
  "sample_backend =
     \<lparr>messages_tbl = [sample_message],
      conversations_tbl = [\<lparr>conv_id = js ''c1'', participant1_id = js ''alice'',
                            participant2_id = js ''bob'', last_message_at = 1000\<rparr>],
      typing_tbl = [], requests = []\<rparr>"

text \<open>The same message carrying a reaction of alice.\<close>

definition reacted_message :: message where
  "reacted_message = sample_message\<lparr>reactions := JArr [new_reaction (js ''alice'') (js ''ok'')]\<rparr>"

text \<open>Two rows for the pair alice and bob, one in each participant order.\<close>

definition duplicate_conversations :: "conversation list" where
  "duplicate_conversations =
     [\<lparr>conv_id = js ''c1'', participant1_id = js ''alice'', participant2_id = js ''bob'',
       last_message_at = 1000\<rparr>,
      \<lparr>conv_id = js ''c2'', participant1_id = js ''bob'', participant2_id = js ''alice'',
       last_message_at = 1001\<rparr>]"

section \<open>Verified properties\<close>

subsection \<open>Helper lemmas\<close>


lemma js_nonempty: "js (c # cs) \<noteq> []"
  by (simp add: js_def)

lemma trim_hi: "trim (js ''  hi '') = js ''hi''"
  by (simp add: trim_def js_def is_ws_def)

lemma trim_word: "trim (js ''hello!'') = js ''hello!''"
  by (simp add: trim_def js_def is_ws_def)

lemma requests_call: "requests (call r oc b) = requests b @ [r]"
  by (cases oc; cases r) (simp_all add: Let_def)

lemma messages_tbl_delete_typing:
  "messages_tbl (call (DeleteTyping c usr) oc b) = messages_tbl b"
  by (cases oc) simp_all

lemma messages_tbl_select: "messages_tbl (call (SelectMessages c) oc b) = messages_tbl b"
  by (cases oc) simp_all

lemma messages_tbl_preferences:
  "messages_tbl (call (SelectPreferences usr) oc b) = messages_tbl b"
  by (cases oc) simp_all

lemma fetchMessages_backend:
  "snd (fetchMessages cid oc w) = call (SelectMessages cid) oc (snd w)"
  by (simp add: fetchMessages_def Let_def split: sum.splits)

lemma send_tail_requests:
  "requests (snd (send_tail cid uid o2 c b)) = requests b @ [DeleteTyping cid uid]"
  by (simp add: send_tail_def Let_def requests_call)

lemma send_tail_messages_tbl:
  "messages_tbl (snd (send_tail cid uid o2 c b)) = messages_tbl b"
  by (simp add: send_tail_def Let_def messages_tbl_delete_typing)

lemma send_tail_messages:
  "messages (fst (send_tail cid uid o2 c b)) = messages c"
  by (simp add: send_tail_def Let_def)

lemma find_Some_key: "find (\<lambda>r. k r = i) rows = Some r \<Longrightarrow> k r = i"
  by (induction rows) (auto split: if_splits)

lemma find_update_where:
  assumes "find (\<lambda>r. k r = i) rows = Some r" and "\<And>x. k (f x) = k x"
  shows "find (\<lambda>r. k r = i) (update_where (\<lambda>r. k r = i) f rows) = Some (f r)"
  using assms by (induction rows) (auto simp: update_where_def)

lemma find_map_replace:
  assumes "find (\<lambda>m. k m = i) ms = Some m" and "k row = i"
  shows "find (\<lambda>m. k m = i) (map (\<lambda>m. if k m = i then row else m) ms) = Some row"
  using assms by (induction ms) (auto split: if_splits)

lemma echo_update_found:
  assumes "find (\<lambda>r. msg_id r = i) (messages_tbl b) = Some row" and "conversation_id row = cid"
  shows "echo_update cid i (c, b)
           = (c\<lparr>messages := map (\<lambda>msg. if msg_id msg = msg_id row then row else msg) (messages c)\<rparr>, b)"
  using assms by (simp add: echo_update_def subscribeToMessages_def)

subsection \<open>Realtime update of a soft-deleted row\<close>

text \<open>
  C1. The claim: after an UPDATE event whose row has \<open>is_deleted = true\<close>, the rendered
  list no longer shows that message. The code does otherwise: the UPDATE callback replaces
  the local copy by the new row and the page draws every element of \<open>messages\<close>. Here bob's
  client holds alice's message \<open>m1\<close>; alice deletes it; the event arrives; the bubble
  \<open>hello\<close> is still drawn, although the local copy now carries the flag.
\<close>

theorem C1_deleted_update_stays_rendered:
  "is_deleted (sample_message\<lparr>is_deleted := True, deleted_at := Some 2000\<rparr>) \<and>
   render_messages (subscribeToMessages (js ''c1'')
       (UPDATE (sample_message\<lparr>is_deleted := True, deleted_at := Some 2000\<rparr>)) sample_chat)
     = Inr [(js ''m1'', js ''hello'')]"
  by (simp add: render_messages_def reaction_badges_def subscribeToMessages_def sample_chat_def
        sample_message_def)

subsection \<open>Initial load\<close>

text \<open>
  Where the mapping of the rows does not throw, the load stores exactly the mapped rows,
  whatever \<open>messages\<close> held before; they are the conversation's rows that are not
  soft-deleted, in ascending order of \<open>created_at\<close>. The mapping does not throw when no
  entry of a reactions array is \<open>null\<close>.
\<close>

lemma normalize_reaction_total:
  "r \<noteq> JNull \<Longrightarrow> \<exists>r'. normalize_reaction r = Inr r'"
  by (cases r) (simp_all add: normalize_reaction_def)

lemma map_js_total:
  "(\<And>x. x \<in> set xs \<Longrightarrow> \<exists>y. f x = Inr y) \<Longrightarrow> \<exists>ys. map_js f xs = Inr ys"
proof (induction xs)
  case Nil
  then show ?case by simp
next
  case (Cons x xs)
  from Cons.prems obtain y where "f x = Inr y" by auto
  moreover from Cons obtain ys where "map_js f xs = Inr ys" by auto
  ultimately show ?case by simp
qed

lemma map_js_normalize_fields:
  "map_js normalize_message xs = Inr ys \<Longrightarrow>
     map msg_id ys = map msg_id xs \<and> map created_at ys = map created_at xs
     \<and> map is_deleted ys = map is_deleted xs \<and> map conversation_id ys = map conversation_id xs
     \<and> map content ys = map content xs"
proof (induction xs arbitrary: ys)
  case Nil
  then show ?case by simp
next
  case (Cons x xs)
  then show ?case
    by (auto simp: normalize_message_def split: sum.splits)
qed

lemma fetchMessages_loaded:
  assumes "map_js normalize_message (select_messages cid (messages_tbl b)) = Inr ms"
  shows "messages (fst (fetchMessages cid (Applied u t) (c, b))) = ms
       \<and> sorted (map created_at ms)
       \<and> (\<forall>m \<in> set ms. \<not> is_deleted m \<and> conversation_id m = cid)"
proof -
  note f = map_js_normalize_fields [OF assms]
  have "sorted (map created_at (select_messages cid (messages_tbl b)))"
    by (simp add: select_messages_def)
  then have s: "sorted (map created_at ms)" using f by simp
  have "\<forall>r \<in> set (select_messages cid (messages_tbl b)). \<not> is_deleted r \<and> conversation_id r = cid"
    by (auto simp: select_messages_def)
  then have "(\<forall>x \<in> set (map is_deleted (select_messages cid (messages_tbl b))). \<not> x)
      \<and> (\<forall>x \<in> set (map conversation_id (select_messages cid (messages_tbl b))). x = cid)"
    by simp
  then have "(\<forall>x \<in> set (map is_deleted ms). \<not> x) \<and> (\<forall>x \<in> set (map conversation_id ms). x = cid)"
    using f by simp
  then have d: "\<forall>m \<in> set ms. \<not> is_deleted m \<and> conversation_id m = cid"
    by simp
  show ?thesis using assms s d by (simp add: fetchMessages_def Let_def)
qed

text \<open>
  C2. The claim: the load normalizes each entry of a reactions array to a record with
  defaults and replaces the local sequence. At a row whose reactions array holds \<open>null\<close>
  the code does otherwise: \<open>r.emoji\<close> throws inside \<open>map\<close>, \<open>catch\<close> shows the toast and
  \<open>setMessages\<close> is never reached, so the row, which the query does return, is not loaded and
  the local sequence stays as it was.
\<close>

theorem C2_null_reaction_entry_fails_load:
  "select_messages (js ''c1'') [sample_message\<lparr>reactions := JArr [JNull]\<rparr>]
     = [sample_message\<lparr>reactions := JArr [JNull]\<rparr>]
   \<and> fst (fetchMessages (js ''c1'') (Applied [] 0)
        (sample_chat\<lparr>messages := []\<rparr>,
         sample_backend\<lparr>messages_tbl := [sample_message\<lparr>reactions := JArr [JNull]\<rparr>]\<rparr>))
     = sample_chat\<lparr>messages := [], toasts := [''Failed to load messages'']\<rparr>"
  by (simp add: fetchMessages_def select_messages_def normalize_message_def normalize_reaction_def
        sample_chat_def sample_backend_def sample_message_def Let_def)

subsection \<open>The send guard\<close>



subsection \<open>Sending a new message\<close>

text \<open>
  C10. For a draft that is not empty after trimming, outside edit mode and with no
  submission in flight, \<open>handleSendMessage\<close> sends an insert whose content is the draft as
  typed, not the trimmed string; when the database executes it, the stored row has exactly
  that content, leading and trailing whitespace included.
\<close>

theorem C10_send_inserts_raw_draft:
  assumes "trim (newMessage (fst w)) \<noteq> []" and "\<not> isSending (fst w)"
      and "editing_target (fst w) = None"
  shows "requests (snd (handleSendMessage cid uid now o1 o2 w)) =
           requests (snd w)
           @ [InsertMessage cid uid (newMessage (fst w)) (js ''text'')
                (reply_parent (replyingTo (fst w)))]
           @ (if is_applied o1 then [DeleteTyping cid uid] else [])
       \<and> (o1 = Applied u t \<longrightarrow>
           messages_tbl (snd (handleSendMessage cid uid now o1 o2 w)) =
             messages_tbl (snd w)
             @ [new_message_row u t cid uid (newMessage (fst w)) (js ''text'')
                  (reply_parent (replyingTo (fst w)))]
           \<and> content (last (messages_tbl (snd (handleSendMessage cid uid now o1 o2 w))))
               = newMessage (fst w))"
  using assms
  by (auto simp: handleSendMessage_def Let_def send_tail_requests send_tail_messages_tbl
        requests_call send_failed_def new_message_row_def)

theorem C10_send_inserts_raw_draft_witness:
  "trim (newMessage (fst (sample_chat\<lparr>newMessage := js ''  hi ''\<rparr>, sample_backend))) \<noteq> [] \<and>
   \<not> isSending (fst (sample_chat\<lparr>newMessage := js ''  hi ''\<rparr>, sample_backend)) \<and>
   editing_target (fst (sample_chat\<lparr>newMessage := js ''  hi ''\<rparr>, sample_backend)) = None \<and>
   content (last (messages_tbl (snd (handleSendMessage (js ''c1'') (js ''alice'') 5000
       (Applied (js ''m2'') 5001) (Applied [] 5002)
       (sample_chat\<lparr>newMessage := js ''  hi ''\<rparr>, sample_backend))))) = js ''  hi ''"
  using C10_send_inserts_raw_draft [of "(sample_chat\<lparr>newMessage := js ''  hi ''\<rparr>, sample_backend)"
      "js ''c1''" "js ''alice''" 5000 "Applied (js ''m2'') 5001" "Applied [] 5002" "js ''m2''" 5001]
  by (simp add: trim_hi js_nonempty sample_chat_def editing_target_def new_message_row_def)

subsection \<open>Read receipts\<close>

text \<open>
  C9. Entering a conversation sends one bulk update (\<open>MarkRead\<close>). When the database executes
  it, the table keeps its length and, row by row, a message of this conversation that was
  sent by someone else and was unread becomes read with no other change, while a message
  sent by the current user, an already read message and a message of another conversation
  stay exactly as they were.
\<close>

theorem C9_mark_read_on_enter:
  "requests (snd (enter_conversation cid uid o0 o1 (Applied u t) w))
     = requests (snd w) @ [SelectPreferences uid, SelectMessages cid, MarkRead cid uid]
   \<and> length (messages_tbl (snd (enter_conversation cid uid o0 o1 (Applied u t) w)))
     = length (messages_tbl (snd w))
   \<and> (\<forall>i < length (messages_tbl (snd w)).
         let old = messages_tbl (snd w) ! i;
             new = messages_tbl (snd (enter_conversation cid uid o0 o1 (Applied u t) w)) ! i
         in (conversation_id old = cid \<and> sender_id old \<noteq> uid \<and> \<not> is_read old
               \<longrightarrow> new = old\<lparr>is_read := True\<rparr>)
          \<and> (sender_id old = uid \<or> is_read old \<or> conversation_id old \<noteq> cid \<longrightarrow> new = old))"
  by (auto simp: enter_conversation_def markMessagesAsRead_def fetchMessages_backend
        fetchUserPreferences_def requests_call messages_tbl_select messages_tbl_preferences
        update_where_def Let_def)

theorem C9_mark_read_on_enter_witness:
  "0 < length (messages_tbl (snd (sample_chat, sample_backend)))
   \<and> conversation_id (messages_tbl (snd (sample_chat, sample_backend)) ! 0) = js ''c1''
   \<and> sender_id (messages_tbl (snd (sample_chat, sample_backend)) ! 0) \<noteq> js ''bob''
   \<and> \<not> is_read (messages_tbl (snd (sample_chat, sample_backend)) ! 0)
   \<and> messages_tbl (snd (enter_conversation (js ''c1'') (js ''bob'') (Applied [] 2999)
         (Applied [] 3000) (Applied [] 3001) (sample_chat, sample_backend))) ! 0
       = sample_message\<lparr>is_read := True\<rparr>"
proof -
  have len: "0 < length (messages_tbl (snd (sample_chat, sample_backend)))"
    by (simp add: sample_backend_def)
  have old: "messages_tbl (snd (sample_chat, sample_backend)) ! 0 = sample_message"
    by (simp add: sample_backend_def)
  have pre: "conversation_id sample_message = js ''c1'' \<and> sender_id sample_message \<noteq> js ''bob''
      \<and> \<not> is_read sample_message"
    by (simp add: sample_message_def js_def)
  from C9_mark_read_on_enter [of "js ''c1''" "js ''bob''" "Applied [] 2999" "Applied [] 3000"
      "[]" 3001 "(sample_chat, sample_backend)"]
  have "\<forall>i < length (messages_tbl (snd (sample_chat, sample_backend))).
         let old = messages_tbl (snd (sample_chat, sample_backend)) ! i;
             new = messages_tbl (snd (enter_conversation (js ''c1'') (js ''bob'') (Applied [] 2999)
                     (Applied [] 3000) (Applied [] 3001) (sample_chat, sample_backend))) ! i
         in (conversation_id old = js ''c1'' \<and> sender_id old \<noteq> js ''bob'' \<and> \<not> is_read old
               \<longrightarrow> new = old\<lparr>is_read := True\<rparr>)
          \<and> (sender_id old = js ''bob'' \<or> is_read old \<or> conversation_id old \<noteq> js ''c1''
               \<longrightarrow> new = old)"
    by blast
  with len have "messages_tbl (snd (enter_conversation (js ''c1'') (js ''bob'') (Applied [] 2999)
         (Applied [] 3000) (Applied [] 3001) (sample_chat, sample_backend))) ! 0
       = sample_message\<lparr>is_read := True\<rparr>"
    using old pre by (auto simp: Let_def)
  with len old pre show ?thesis by simp
qed

subsection \<open>Soft delete\<close>

lemma select_messages_member:
  "r \<in> set (select_messages cid rows) \<longleftrightarrow> r \<in> set rows \<and> conversation_id r = cid \<and> \<not> is_deleted r"
  by (simp add: select_messages_def)

lemma soft_deleted_not_selected:
  "i \<notin> msg_id ` set (select_messages cid
       (update_where (\<lambda>r. msg_id r = i) (\<lambda>r. r\<lparr>is_deleted := True, deleted_at := Some d\<rparr>) rows))"
proof
  assume "i \<in> msg_id ` set (select_messages cid
       (update_where (\<lambda>r. msg_id r = i) (\<lambda>r. r\<lparr>is_deleted := True, deleted_at := Some d\<rparr>) rows))"
  then obtain r where sel: "r \<in> set (select_messages cid
       (update_where (\<lambda>r. msg_id r = i) (\<lambda>r. r\<lparr>is_deleted := True, deleted_at := Some d\<rparr>) rows))"
    and key: "msg_id r = i"
    by blast
  from sel have mem: "r \<in> set (update_where (\<lambda>r. msg_id r = i)
        (\<lambda>r. r\<lparr>is_deleted := True, deleted_at := Some d\<rparr>) rows)"
    and live: "\<not> is_deleted r"
    by (simp_all add: select_messages_member)
  from mem obtain r0 where "r0 \<in> set rows"
    and "r = (if msg_id r0 = i then r0\<lparr>is_deleted := True, deleted_at := Some d\<rparr> else r0)"
    unfolding update_where_def by auto
  with key have "is_deleted r"
    by (cases "msg_id r0 = i") simp_all
  with live show False by simp
qed

lemma fetchMessages_ids:
  "msg_id ` set (messages (fst (fetchMessages cid oc w)))
     \<subseteq> msg_id ` set (messages (fst w)) \<union> msg_id ` set (select_messages cid (messages_tbl (snd w)))"
proof (cases "is_applied oc")
  case False
  then show ?thesis by (simp add: fetchMessages_def Let_def)
next
  case True
  show ?thesis
  proof (cases "map_js normalize_message (select_messages cid (messages_tbl (snd w)))")
    case (Inl e)
    with True show ?thesis by (simp add: fetchMessages_def Let_def)
  next
    case (Inr ms)
    from map_js_normalize_fields [OF Inr]
    have "map msg_id ms = map msg_id (select_messages cid (messages_tbl (snd w)))"
      by simp
    then have "set (map msg_id ms) = set (map msg_id (select_messages cid (messages_tbl (snd w))))"
      by simp
    then have "msg_id ` set ms = msg_id ` set (select_messages cid (messages_tbl (snd w)))"
      by simp
    with True Inr show ?thesis by (simp add: fetchMessages_def Let_def)
  qed
qed

text \<open>
  C6. When the database executes the update that \<open>handleDeleteMessage\<close> sends, the rows
  with that identifier get the soft-delete flag and the deletion timestamp and every other
  row is untouched; in the same step, before any realtime event, the local sequence is the
  old one without the entries of that identifier, the others in their order; and the query
  of a later initial load does not return the message, so no load brings it back.
\<close>

theorem C6_delete_is_immediate_and_lasting:
  "messages_tbl (snd (handleDeleteMessage i now (Applied u t) w))
     = map (\<lambda>r. if msg_id r = i then r\<lparr>is_deleted := True, deleted_at := Some now\<rparr> else r)
         (messages_tbl (snd w))
   \<and> messages (fst (handleDeleteMessage i now (Applied u t) w))
     = filter (\<lambda>msg. msg_id msg \<noteq> i) (messages (fst w))
   \<and> i \<notin> msg_id ` set (messages (fst (handleDeleteMessage i now (Applied u t) w)))
   \<and> i \<notin> msg_id ` set (select_messages cid
                          (messages_tbl (snd (handleDeleteMessage i now (Applied u t) w))))
   \<and> i \<notin> msg_id ` set (messages (fst (fetchMessages cid oc
                                (handleDeleteMessage i now (Applied u t) w))))"
proof -
  let ?w' = "handleDeleteMessage i now (Applied u t) w"
  have tbl: "messages_tbl (snd ?w')
     = update_where (\<lambda>r. msg_id r = i) (\<lambda>r. r\<lparr>is_deleted := True, deleted_at := Some now\<rparr>)
         (messages_tbl (snd w))"
    by (simp add: handleDeleteMessage_def Let_def)
  have loc: "messages (fst ?w') = filter (\<lambda>msg. msg_id msg \<noteq> i) (messages (fst w))"
    by (simp add: handleDeleteMessage_def Let_def)
  have gone: "i \<notin> msg_id ` set (messages (fst ?w'))"
    unfolding loc by auto
  have sel: "i \<notin> msg_id ` set (select_messages cid (messages_tbl (snd ?w')))"
    unfolding tbl by (rule soft_deleted_not_selected)
  with gone fetchMessages_ids [of cid oc ?w']
  have reload: "i \<notin> msg_id ` set (messages (fst (fetchMessages cid oc ?w')))"
    by blast
  have tbl': "messages_tbl (snd ?w')
     = map (\<lambda>r. if msg_id r = i then r\<lparr>is_deleted := True, deleted_at := Some now\<rparr> else r)
         (messages_tbl (snd w))"
    unfolding tbl by (simp add: update_where_def)
  from conjI [OF tbl' conjI [OF loc conjI [OF gone conjI [OF sel reload]]]]
  show ?thesis .
qed

theorem C6_delete_is_immediate_and_lasting_witness:
  "messages (fst (handleDeleteMessage (js ''m1'') 2000 (Applied [] 2001)
       (sample_chat, sample_backend))) = []
   \<and> messages (fst (fetchMessages (js ''c1'') (Applied [] 2002)
       (handleDeleteMessage (js ''m1'') 2000 (Applied [] 2001) (sample_chat, sample_backend)))) = []"
proof -
  note d = C6_delete_is_immediate_and_lasting [of "js ''m1''" 2000 "[]" 2001
      "(sample_chat, sample_backend)" "js ''c1''" "Applied [] 2002"]
  from d have "messages (fst (handleDeleteMessage (js ''m1'') 2000 (Applied [] 2001)
       (sample_chat, sample_backend))) = filter (\<lambda>msg. msg_id msg \<noteq> js ''m1'') (messages sample_chat)"
    by simp
  then have a: "messages (fst (handleDeleteMessage (js ''m1'') 2000 (Applied [] 2001)
       (sample_chat, sample_backend))) = []"
    by (simp add: sample_chat_def sample_message_def)
  from d have "messages_tbl (snd (handleDeleteMessage (js ''m1'') 2000 (Applied [] 2001)
       (sample_chat, sample_backend)))
     = map (\<lambda>r. if msg_id r = js ''m1'' then r\<lparr>is_deleted := True, deleted_at := Some 2000\<rparr> else r)
         (messages_tbl sample_backend)"
    by simp
  then have "select_messages (js ''c1'') (messages_tbl (snd (handleDeleteMessage (js ''m1'') 2000
       (Applied [] 2001) (sample_chat, sample_backend)))) = []"
    by (simp add: select_messages_def sample_backend_def sample_message_def)
  then have "messages (fst (fetchMessages (js ''c1'') (Applied [] 2002)
       (handleDeleteMessage (js ''m1'') 2000 (Applied [] 2001) (sample_chat, sample_backend)))) = []"
    by (simp add: fetchMessages_def Let_def)
  with a show ?thesis by simp
qed

subsection \<open>Editing a message\<close>

lemma edit_commit_state:
  assumes "trim (newMessage c) \<noteq> []" and "\<not> isSending c" and "editing_target c = Some i"
  shows "messages_tbl (snd (handleSendMessage cid uid now (Applied u t) o2 (c, b)))
           = update_where (\<lambda>r. msg_id r = i) (\<lambda>r. r\<lparr>content := newMessage c, edited_at := Some now\<rparr>)
               (messages_tbl b)"
    and "messages (fst (handleSendMessage cid uid now (Applied u t) o2 (c, b))) = messages c"
    and "requests (snd (handleSendMessage cid uid now (Applied u t) o2 (c, b)))
           = requests b @ [UpdateContent i (newMessage c) now, DeleteTyping cid uid]"
  using assms
  by (simp_all add: handleSendMessage_def Let_def send_tail_messages_tbl send_tail_messages
        send_tail_requests requests_call)

text \<open>
  C5. In edit mode \<open>handleSendMessage\<close> sends one update of the edited row. When the
  database executes it, that row has the draft as content and the (non-null) edit
  timestamp and is otherwise the old row, so its \<open>created_at\<close> is the old one, and every
  other row is untouched. When the realtime UPDATE event of that row is merged, the local
  sequence keeps its length, the entry at each position keeps its identifier, the entries
  with the edited identifier are the new row, and all others are unchanged.
\<close>

theorem C5_edit_keeps_position:
  assumes draft: "trim (newMessage c) \<noteq> []" and idle: "\<not> isSending c"
      and editing: "editing_target c = Some i"
      and row: "find (\<lambda>r. msg_id r = i) (messages_tbl b) = Some row"
      and conv: "conversation_id row = cid"
      and w': "w' = echo_update cid i (handleSendMessage cid uid now (Applied u t) o2 (c, b))"
  shows "messages_tbl (snd w')
           = map (\<lambda>r. if msg_id r = i then r\<lparr>content := newMessage c, edited_at := Some now\<rparr> else r)
               (messages_tbl b)
       \<and> find (\<lambda>r. msg_id r = i) (messages_tbl (snd w'))
           = Some (row\<lparr>content := newMessage c, edited_at := Some now\<rparr>)
       \<and> created_at (row\<lparr>content := newMessage c, edited_at := Some now\<rparr>) = created_at row
       \<and> length (messages (fst w')) = length (messages c)
       \<and> (\<forall>k < length (messages c).
            messages (fst w') ! k =
              (if msg_id (messages c ! k) = i
               then row\<lparr>content := newMessage c, edited_at := Some now\<rparr>
               else messages c ! k))
       \<and> map msg_id (messages (fst w')) = map msg_id (messages c)"
proof -
  let ?w1 = "handleSendMessage cid uid now (Applied u t) o2 (c, b)"
  let ?row' = "row\<lparr>content := newMessage c, edited_at := Some now\<rparr>"
  note st = edit_commit_state [OF draft idle editing, of cid uid now u t o2 b]
  have found: "find (\<lambda>r. msg_id r = i) (messages_tbl (snd ?w1)) = Some ?row'"
    unfolding st(1) by (rule find_update_where [OF row]) simp
  have id_row: "msg_id row = i"
    using row by (rule find_Some_key)
  have conv': "conversation_id ?row' = cid"
    using conv by simp
  have "w' = echo_update cid i (fst ?w1, snd ?w1)"
    using w' by simp
  also have "\<dots> = ((fst ?w1)\<lparr>messages :=
        map (\<lambda>msg. if msg_id msg = msg_id ?row' then ?row' else msg) (messages (fst ?w1))\<rparr>, snd ?w1)"
    by (rule echo_update_found [OF found conv'])
  finally have w'_eq: "w' = ((fst ?w1)\<lparr>messages :=
        map (\<lambda>msg. if msg_id msg = i then ?row' else msg) (messages c)\<rparr>, snd ?w1)"
    using id_row st(2) by simp
  have ids: "map msg_id (messages (fst w')) = map msg_id (messages c)"
    unfolding w'_eq using id_row by (simp add: comp_def cong: map_cong)
  have tbl: "messages_tbl (snd w')
           = map (\<lambda>r. if msg_id r = i then r\<lparr>content := newMessage c, edited_at := Some now\<rparr> else r)
               (messages_tbl b)"
    unfolding w'_eq using st(1) by (simp add: update_where_def)
  have found': "find (\<lambda>r. msg_id r = i) (messages_tbl (snd w')) = Some ?row'"
    unfolding w'_eq using found by simp
  have pos: "\<forall>k < length (messages c).
            messages (fst w') ! k = (if msg_id (messages c ! k) = i then ?row' else messages c ! k)"
    unfolding w'_eq by simp
  have len: "length (messages (fst w')) = length (messages c)"
    unfolding w'_eq by simp
  have cr: "created_at ?row' = created_at row"
    by simp
  from conjI [OF tbl conjI [OF found' conjI [OF cr conjI [OF len conjI [OF pos ids]]]]]
  show ?thesis .
qed

theorem C5_edit_keeps_position_witness:
  "trim (newMessage (sample_chat\<lparr>newMessage := js ''hello!'', editingMessageId := Some (js ''m1'')\<rparr>)) \<noteq> []
   \<and> \<not> isSending (sample_chat\<lparr>newMessage := js ''hello!'', editingMessageId := Some (js ''m1'')\<rparr>)
   \<and> editing_target (sample_chat\<lparr>newMessage := js ''hello!'', editingMessageId := Some (js ''m1'')\<rparr>)
       = Some (js ''m1'')
   \<and> find (\<lambda>r. msg_id r = js ''m1'') (messages_tbl sample_backend) = Some sample_message
   \<and> conversation_id sample_message = js ''c1''
   \<and> messages (fst (echo_update (js ''c1'') (js ''m1'')
         (handleSendMessage (js ''c1'') (js ''alice'') 5000 (Applied [] 5001) (Applied [] 5002)
            (sample_chat\<lparr>newMessage := js ''hello!'', editingMessageId := Some (js ''m1'')\<rparr>,
             sample_backend)))) ! 0
       = sample_message\<lparr>content := js ''hello!'', edited_at := Some 5000\<rparr>"
proof -
  let ?c = "sample_chat\<lparr>newMessage := js ''hello!'', editingMessageId := Some (js ''m1'')\<rparr>"
  have h1: "trim (newMessage ?c) \<noteq> []"
    by (simp add: trim_word js_nonempty)
  have h2: "\<not> isSending ?c"
    by (simp add: sample_chat_def)
  have h3: "editing_target ?c = Some (js ''m1'')"
    by (simp add: editing_target_def js_nonempty)
  have h4: "find (\<lambda>r. msg_id r = js ''m1'') (messages_tbl sample_backend) = Some sample_message"
    by (simp add: sample_backend_def sample_message_def)
  have h5: "conversation_id sample_message = js ''c1''"
    by (simp add: sample_message_def)
  note e = C5_edit_keeps_position [OF h1 h2 h3 h4 h5 refl, of "js ''alice''" 5000 "[]" 5001
      "Applied [] 5002"]
  from e have "\<forall>k < length (messages ?c).
      messages (fst (echo_update (js ''c1'') (js ''m1'')
         (handleSendMessage (js ''c1'') (js ''alice'') 5000 (Applied [] 5001) (Applied [] 5002)
            (?c, sample_backend)))) ! k
       = (if msg_id (messages ?c ! k) = js ''m1''
          then sample_message\<lparr>content := newMessage ?c, edited_at := Some 5000\<rparr>
          else messages ?c ! k)"
    by blast
  then have "messages (fst (echo_update (js ''c1'') (js ''m1'')
         (handleSendMessage (js ''c1'') (js ''alice'') 5000 (Applied [] 5001) (Applied [] 5002)
            (?c, sample_backend)))) ! 0
       = sample_message\<lparr>content := js ''hello!'', edited_at := Some 5000\<rparr>"
    by (simp add: sample_chat_def sample_message_def)
  with h1 h2 h3 h4 h5 show ?thesis by blast
qed

subsection \<open>Reaction toggle\<close>

lemma same_reaction_new: "same_reaction uid emoji (new_reaction uid emoji) = Inr True"
  by (simp add: same_reaction_def new_reaction_def js_def)

lemma truthy_new_reaction: "truthy (new_reaction uid emoji)"
  by (simp add: new_reaction_def)

lemma find_js_append_new:
  "find_js (same_reaction uid emoji) rs = Inr None \<Longrightarrow>
   find_js (same_reaction uid emoji) (rs @ [new_reaction uid emoji])
     = Inr (Some (new_reaction uid emoji))"
  by (induction rs) (auto simp: same_reaction_new split: sum.splits if_splits)

lemma filter_js_append_new:
  "find_js (same_reaction uid emoji) rs = Inr None \<Longrightarrow>
   filter_js (other_reaction uid emoji) (rs @ [new_reaction uid emoji]) = Inr rs"
  by (induction rs) (auto simp: other_reaction_def same_reaction_new split: sum.splits if_splits)

lemma toggle_react:
  assumes "reaction_collection v = JArr rs" and "find_js (same_reaction uid emoji) rs = Inr None"
  shows "toggle_reaction uid emoji v = Inr (JArr (rs @ [new_reaction uid emoji]))"
  using assms by (simp add: toggle_reaction_def)

lemma toggle_unreact:
  assumes "find_js (same_reaction uid emoji) rs = Inr None"
  shows "toggle_reaction uid emoji (JArr (rs @ [new_reaction uid emoji])) = Inr (JArr rs)"
  using assms
  by (simp add: toggle_reaction_def reaction_collection_def find_js_append_new
        filter_js_append_new truthy_new_reaction)

lemma react_step:
  assumes loc: "find (\<lambda>m. msg_id m = i) (messages c) = Some m"
      and row: "find (\<lambda>r. msg_id r = i) (messages_tbl b) = Some row"
      and conv: "conversation_id row = cid"
      and tog: "toggle_reaction uid emoji (reactions m) = Inr new"
  shows "echo_update cid i (handleReaction uid i emoji (Applied u t) (c, b))
           = (c\<lparr>messages := map (\<lambda>msg. if msg_id msg = i then row\<lparr>reactions := new\<rparr> else msg)
                               (messages c)\<rparr>,
              b\<lparr>requests := requests b @ [SetReactions i new],
                messages_tbl := update_where (\<lambda>r. msg_id r = i) (\<lambda>r. r\<lparr>reactions := new\<rparr>)
                                  (messages_tbl b)\<rparr>)"
proof -
  let ?b1 = "b\<lparr>requests := requests b @ [SetReactions i new],
                messages_tbl := update_where (\<lambda>r. msg_id r = i) (\<lambda>r. r\<lparr>reactions := new\<rparr>)
                                  (messages_tbl b)\<rparr>"
  have h: "handleReaction uid i emoji (Applied u t) (c, b) = (c, ?b1)"
    using loc tog by (simp add: handleReaction_def)
  have found: "find (\<lambda>r. msg_id r = i) (messages_tbl ?b1) = Some (row\<lparr>reactions := new\<rparr>)"
    using find_update_where [OF row, of "\<lambda>r. r\<lparr>reactions := new\<rparr>"] by simp
  have "msg_id row = i" using row by (rule find_Some_key)
  then show ?thesis
    unfolding h using echo_update_found [OF found, of cid c] conv by simp
qed

text \<open>
  C4, as stated: two toggles in sequence by the same user with the same emoji, the first a
  react, return the message's reaction collection to its state before the first toggle.
  \<open>handleReaction\<close> does not write \<open>messages\<close>, so without a realtime event between the
  two calls the second call reads the same local collection as the first: it is a react
  again and sends the same appended collection. Here the message carries alice's reaction
  and bob toggles twice; both updates are executed; the local copy never changes and the
  stored collection ends as alice's and bob's reactions, not as alice's alone.
\<close>

theorem C4_two_toggles_without_echo_counterexample:
  "messages (fst (handleReaction (js ''bob'') (js ''m1'') (js ''ok'') (Applied [] 7001)
       (handleReaction (js ''bob'') (js ''m1'') (js ''ok'') (Applied [] 7000)
          (sample_chat\<lparr>messages := [reacted_message]\<rparr>,
           sample_backend\<lparr>messages_tbl := [reacted_message]\<rparr>))))
     = [reacted_message]
   \<and> map reactions (messages_tbl (snd (handleReaction (js ''bob'') (js ''m1'') (js ''ok'')
       (Applied [] 7001)
       (handleReaction (js ''bob'') (js ''m1'') (js ''ok'') (Applied [] 7000)
          (sample_chat\<lparr>messages := [reacted_message]\<rparr>,
           sample_backend\<lparr>messages_tbl := [reacted_message]\<rparr>)))))
     = [JArr [new_reaction (js ''alice'') (js ''ok''), new_reaction (js ''bob'') (js ''ok'')]]
   \<and> requests (snd (handleReaction (js ''bob'') (js ''m1'') (js ''ok'') (Applied [] 7001)
       (handleReaction (js ''bob'') (js ''m1'') (js ''ok'') (Applied [] 7000)
          (sample_chat\<lparr>messages := [reacted_message]\<rparr>,
           sample_backend\<lparr>messages_tbl := [reacted_message]\<rparr>))))
     = [SetReactions (js ''m1'')
          (JArr [new_reaction (js ''alice'') (js ''ok''), new_reaction (js ''bob'') (js ''ok'')]),
        SetReactions (js ''m1'')
          (JArr [new_reaction (js ''alice'') (js ''ok''), new_reaction (js ''bob'') (js ''ok'')])]
   \<and> JArr [new_reaction (js ''alice'') (js ''ok''), new_reaction (js ''bob'') (js ''ok'')]
     \<noteq> reactions reacted_message"
  by (simp add: handleReaction_def toggle_reaction_def reaction_collection_def
        same_reaction_def new_reaction_def reacted_message_def sample_message_def
        sample_chat_def sample_backend_def update_where_def js_def)

text \<open>
  C4, amended. Take a message of the local sequence whose row exists in the conversation,
  and a user and an emoji for which the first toggle is a react: the collection the handler
  reads (\<open>message.reactions || []\<close>) is an array in which \<open>find\<close> meets no reaction of
  that user with that emoji. If the realtime UPDATE event of each toggle's write is merged
  into the local sequence before the next toggle, then after the first toggle the local
  message carries the collection with the new reaction appended, and after the second
  toggle the local message carries the collection as it was read before the first toggle;
  the stored row ends with that same collection.
\<close>

theorem C4_react_then_unreact:
  assumes loc: "find (\<lambda>m. msg_id m = i) (messages c) = Some m"
      and row: "find (\<lambda>r. msg_id r = i) (messages_tbl b) = Some row"
      and conv: "conversation_id row = cid"
      and coll: "reaction_collection (reactions m) = JArr rs"
      and fresh: "find_js (same_reaction uid emoji) rs = Inr None"
      and w1: "w1 = echo_update cid i (handleReaction uid i emoji (Applied u t) (c, b))"
      and w2: "w2 = echo_update cid i (handleReaction uid i emoji (Applied u' t') w1)"
  shows "(\<exists>m1. find (\<lambda>m. msg_id m = i) (messages (fst w1)) = Some m1
              \<and> reactions m1 = JArr (rs @ [new_reaction uid emoji]))
       \<and> (\<exists>m2. find (\<lambda>m. msg_id m = i) (messages (fst w2)) = Some m2
              \<and> reactions m2 = reaction_collection (reactions m))
       \<and> (\<exists>r2. find (\<lambda>r. msg_id r = i) (messages_tbl (snd w2)) = Some r2
              \<and> reactions r2 = reaction_collection (reactions m))"
proof -
  let ?new = "new_reaction uid emoji"
  let ?row1 = "row\<lparr>reactions := JArr (rs @ [?new])\<rparr>"
  let ?c1 = "c\<lparr>messages := map (\<lambda>msg. if msg_id msg = i then ?row1 else msg) (messages c)\<rparr>"
  let ?b1 = "b\<lparr>requests := requests b @ [SetReactions i (JArr (rs @ [?new]))],
                messages_tbl := update_where (\<lambda>r. msg_id r = i)
                    (\<lambda>r. r\<lparr>reactions := JArr (rs @ [?new])\<rparr>) (messages_tbl b)\<rparr>"
  have id_row: "msg_id row = i" using row by (rule find_Some_key)
  have w1_eq: "w1 = (?c1, ?b1)"
    unfolding w1 by (rule react_step [OF loc row conv toggle_react [OF coll fresh]])
  have loc1: "find (\<lambda>m. msg_id m = i) (messages ?c1) = Some ?row1"
    using find_map_replace [OF loc, of ?row1] id_row by simp
  have row1: "find (\<lambda>r. msg_id r = i) (messages_tbl ?b1) = Some ?row1"
    using find_update_where [OF row, of "\<lambda>r. r\<lparr>reactions := JArr (rs @ [?new])\<rparr>"] by simp
  have conv1: "conversation_id ?row1 = cid" using conv by simp
  have tog2: "toggle_reaction uid emoji (reactions ?row1) = Inr (JArr rs)"
    using toggle_unreact [OF fresh] by simp
  let ?row2 = "?row1\<lparr>reactions := JArr rs\<rparr>"
  note step2 = react_step [OF loc1 row1 conv1 tog2, of u' t']
  have w2_eq: "w2 = (?c1\<lparr>messages := map (\<lambda>msg. if msg_id msg = i then ?row2 else msg) (messages ?c1)\<rparr>,
              ?b1\<lparr>requests := requests ?b1 @ [SetReactions i (JArr rs)],
                messages_tbl := update_where (\<lambda>r. msg_id r = i) (\<lambda>r. r\<lparr>reactions := JArr rs\<rparr>)
                                  (messages_tbl ?b1)\<rparr>)"
    unfolding w2 w1_eq by (rule step2)
  have loc2: "find (\<lambda>m. msg_id m = i) (messages (fst w2)) = Some ?row2"
    unfolding w2_eq using find_map_replace [OF loc1, of ?row2] id_row by simp
  have row2: "find (\<lambda>r. msg_id r = i) (messages_tbl (snd w2)) = Some ?row2"
    unfolding w2_eq using find_update_where [OF row1, of "\<lambda>r. r\<lparr>reactions := JArr rs\<rparr>"] by simp
  have "find (\<lambda>m. msg_id m = i) (messages (fst w1)) = Some ?row1"
    unfolding w1_eq using loc1 by simp
  with loc2 row2 coll show ?thesis by simp
qed

theorem C4_react_then_unreact_witness:
  "find (\<lambda>m. msg_id m = js ''m1'') (messages (sample_chat\<lparr>messages := [reacted_message]\<rparr>))
     = Some reacted_message
   \<and> find (\<lambda>r. msg_id r = js ''m1'') (messages_tbl (sample_backend\<lparr>messages_tbl := [reacted_message]\<rparr>))
     = Some reacted_message
   \<and> conversation_id reacted_message = js ''c1''
   \<and> reaction_collection (reactions reacted_message) = JArr [new_reaction (js ''alice'') (js ''ok'')]
   \<and> find_js (same_reaction (js ''bob'') (js ''ok'')) [new_reaction (js ''alice'') (js ''ok'')] = Inr None
   \<and> (\<exists>m2. find (\<lambda>m. msg_id m = js ''m1'')
          (messages (fst (echo_update (js ''c1'') (js ''m1'')
             (handleReaction (js ''bob'') (js ''m1'') (js ''ok'') (Applied [] 7001)
               (echo_update (js ''c1'') (js ''m1'')
                 (handleReaction (js ''bob'') (js ''m1'') (js ''ok'') (Applied [] 7000)
                   (sample_chat\<lparr>messages := [reacted_message]\<rparr>,
                    sample_backend\<lparr>messages_tbl := [reacted_message]\<rparr>))))))) = Some m2
        \<and> reactions m2 = JArr [new_reaction (js ''alice'') (js ''ok'')])"
proof -
  have h1: "find (\<lambda>m. msg_id m = js ''m1'') (messages (sample_chat\<lparr>messages := [reacted_message]\<rparr>))
     = Some reacted_message"
    by (simp add: reacted_message_def sample_message_def)
  have h2: "find (\<lambda>r. msg_id r = js ''m1'')
       (messages_tbl (sample_backend\<lparr>messages_tbl := [reacted_message]\<rparr>)) = Some reacted_message"
    by (simp add: reacted_message_def sample_message_def)
  have h3: "conversation_id reacted_message = js ''c1''"
    by (simp add: reacted_message_def sample_message_def)
  have h4: "reaction_collection (reactions reacted_message)
      = JArr [new_reaction (js ''alice'') (js ''ok'')]"
    by (simp add: reacted_message_def reaction_collection_def)
  have h5: "find_js (same_reaction (js ''bob'') (js ''ok'')) [new_reaction (js ''alice'') (js ''ok'')]
      = Inr None"
    by (simp add: same_reaction_def new_reaction_def js_def)
  from C4_react_then_unreact [OF h1 h2 h3 h4 h5 refl refl, of "[]" 7000 "[]" 7001] h4
  have "\<exists>m2. find (\<lambda>m. msg_id m = js ''m1'')
          (messages (fst (echo_update (js ''c1'') (js ''m1'')
             (handleReaction (js ''bob'') (js ''m1'') (js ''ok'') (Applied [] 7001)
               (echo_update (js ''c1'') (js ''m1'')
                 (handleReaction (js ''bob'') (js ''m1'') (js ''ok'') (Applied [] 7000)
                   (sample_chat\<lparr>messages := [reacted_message]\<rparr>,
                    sample_backend\<lparr>messages_tbl := [reacted_message]\<rparr>))))))) = Some m2
        \<and> reactions m2 = JArr [new_reaction (js ''alice'') (js ''ok'')]"
    by simp
  with h1 h2 h3 h4 h5 show ?thesis by blast
qed

subsection \<open>Starting a conversation\<close>

text \<open>
  When the lookup finds exactly one conversation of the pair, in either participant order,
  it is reused and nothing is inserted; when it finds none, a row is inserted.
\<close>

lemma start_chat_reuses_single:
  assumes "find_conversation a a' (conversations_tbl b) = [cv]"
  shows "handleStartChat (Some a) a' (Applied u t) o2 (d, b)
           = (d\<lparr>navigated := Some (conv_id cv)\<rparr>, b\<lparr>requests := requests b @ [FindConversation a a']\<rparr>)"
  using assms by (simp add: handleStartChat_def Let_def)

lemma start_chat_inserts_when_none:
  assumes "find_conversation a a' (conversations_tbl b) = []"
  shows "requests (snd (handleStartChat (Some a) a' (Applied u t) o2 (d, b)))
           = requests b @ [FindConversation a a', InsertConversation a a']"
  using assms by (cases o2) (simp_all add: handleStartChat_def Let_def requests_call)

lemma find_conversation_sym:
  "find_conversation a a' rows = find_conversation a' a rows"
  by (auto simp: find_conversation_def intro: filter_cong)

text \<open>
  C7. The claim: whenever a conversation of the pair exists, it is reused and no insert
  is sent. The code does otherwise when more than one exists: \<open>maybeSingle\<close> then yields
  no row, \<open>existingConversation\<close> is \<open>null\<close> and a further row is inserted. Here the table
  holds one row for (alice, bob) and one for (bob, alice); alice starts a chat with bob;
  both statements are executed; the client sends an insert and navigates to the new
  conversation \<open>c3\<close>.
\<close>

theorem C7_duplicates_defeat_reuse:
  "find_conversation (js ''alice'') (js ''bob'') duplicate_conversations = duplicate_conversations
   \<and> navigated (fst (handleStartChat (Some (js ''alice'')) (js ''bob'') (Applied [] 2000)
        (Applied (js ''c3'') 2001)
        (\<lparr>navigated = None, dir_toasts = []\<rparr>,
         sample_backend\<lparr>conversations_tbl := duplicate_conversations\<rparr>))) = Some (js ''c3'')
   \<and> requests (snd (handleStartChat (Some (js ''alice'')) (js ''bob'') (Applied [] 2000)
        (Applied (js ''c3'') 2001)
        (\<lparr>navigated = None, dir_toasts = []\<rparr>,
         sample_backend\<lparr>conversations_tbl := duplicate_conversations\<rparr>)))
     = [FindConversation (js ''alice'') (js ''bob''), InsertConversation (js ''alice'') (js ''bob'')]"
  by (simp add: handleStartChat_def find_conversation_def duplicate_conversations_def
        sample_backend_def Let_def js_def)

subsection \<open>Typing indicator\<close>

text \<open>
  Each keystroke replaces the pending timer by one for three seconds later and sends one
  upsert with the current time. The timer does nothing before its deadline; at or after
  it, it sends the delete, after which the table holds no typing row of this user in this
  conversation.
\<close>

lemma typing_timer_rearmed:
  "typingTimeout (fst (handleTyping cid uid now oc w)) = Some (now + 3000)
   \<and> requests (snd (handleTyping cid uid now oc w)) = requests (snd w) @ [UpsertTyping cid uid now]"
  by (simp add: handleTyping_def requests_call)

lemma typing_timer_waits:
  "now' < now + 3000 \<Longrightarrow>
   run_timers cid uid now' oc' (handleTyping cid uid now oc w) = handleTyping cid uid now oc w"
  by (simp add: run_timers_def handleTyping_def)

lemma typing_timer_deletes:
  assumes "now + 3000 \<le> now'"
  shows "\<forall>r \<in> set (typing_tbl (snd (run_timers cid uid now' (Applied u t)
                                         (handleTyping cid uid now oc w)))).
           \<not> (typing_conversation_id r = cid \<and> typing_user_id r = uid)"
  using assms by (simp add: run_timers_def handleTyping_def)

text \<open>
  C8. The claim: every keystroke upserts the typing row of (conversation, user) with a
  fresh timestamp. The code does otherwise from the second keystroke on: the row of the
  first keystroke exists, the upsert cannot replace it, and the row keeps the timestamp of
  the first keystroke. Here alice types at times 0 and 1000; both statements reach the
  database; the row still says 0.
\<close>

theorem C8_second_keystroke_keeps_old_timestamp:
  "typing_tbl (snd (handleTyping (js ''c1'') (js ''alice'') 1000 (Applied [] 1001)
       (handleTyping (js ''c1'') (js ''alice'') 0 (Applied [] 1) (sample_chat, sample_backend))))
     = [\<lparr>typing_conversation_id = js ''c1'', typing_user_id = js ''alice'', started_at = 0\<rparr>]
   \<and> requests (snd (handleTyping (js ''c1'') (js ''alice'') 1000 (Applied [] 1001)
       (handleTyping (js ''c1'') (js ''alice'') 0 (Applied [] 1) (sample_chat, sample_backend))))
     = [UpsertTyping (js ''c1'') (js ''alice'') 0, UpsertTyping (js ''c1'') (js ''alice'') 1000]"
  by (simp add: handleTyping_def sample_backend_def)

end
